theory Spec2Isabelle
  imports Complex_Main
begin

section \<open>The MCX gold scoring engine\<close>

text \<open>
  The indicator library (sma, ema, trueRange, atr14, zscore), the scoring function
  computeScore and the ingestion step of update_mcx.js, as HOL functions.

  Numbers. A JavaScript number is read as a real number: the arithmetic is the
  arithmetic the code writes down, without the rounding of IEEE doubles and without
  overflow. \<open>null\<close> and \<open>undefined\<close> are \<open>None\<close>. A period or lookback is a
  natural number; every call site passes a positive literal (20, 50, 14, 60). At period 0
  the code divides 0 by 0 and returns NaN, which \<open>real\<close> does not represent, so every
  statement about a period below assumes it positive.
\<close>

subsection \<open>Indicators\<close>

text \<open>\<open>xs.reduce((a,b) => a+b, 0)\<close>: a left fold starting from 0.\<close>

definition sum_reduce :: "real list \<Rightarrow> real" where
  "sum_reduce xs = foldl (\<lambda>a b. a + b) 0 xs"

definition sma :: "real list \<Rightarrow> nat \<Rightarrow> real option" where
  "sma values period =
     (if length values < period then None
      else let slice = drop (length values - period) values;
               s = sum_reduce slice
           in Some (s / real period))"

text \<open>The loop \<open>for (i = period; i < values.length; i++) e = values[i]*k + e*(1-k)\<close>.\<close>

function ema_loop :: "real list \<Rightarrow> real \<Rightarrow> nat \<Rightarrow> real \<Rightarrow> real" where
  "ema_loop values k i e =
     (if i < length values then ema_loop values k (i + 1) (values ! i * k + e * (1 - k))
      else e)"
  by pat_completeness auto
termination
  by (relation "measure (\<lambda>(values, k, i, e). length values - i)") auto

definition ema :: "real list \<Rightarrow> nat \<Rightarrow> real option" where
  "ema values period =
     (if length values < period then None
      else let k = 2 / (real period + 1);
               e = sum_reduce (take period values) / real period
           in Some (ema_loop values k period e))"

text \<open>\<open>prevClose == null\<close> holds of null and of undefined: both are \<open>None\<close>.\<close>

definition trueRange :: "real option \<Rightarrow> real \<Rightarrow> real \<Rightarrow> real" where
  "trueRange prevClose high low =
     (case prevClose of
        None \<Rightarrow> high - low
      | Some pc \<Rightarrow> max (max (high - low) \<bar>high - pc\<bar>) \<bar>low - pc\<bar>)"

text \<open>
  The objects \<open>{h, l, c}\<close> that atr14 reads. High and low are numbers; the close may be
  missing, and a missing previous close makes trueRange take its first branch.
\<close>

record hlc =
  t_h :: real
  t_l :: real
  t_c :: "real option"

text \<open>The first loop of atr14: the true range of bar \<open>i\<close>, for every index in order.\<close>

definition true_ranges :: "hlc list \<Rightarrow> real list" where
  "true_ranges bars =
     map (\<lambda>i. let b = bars ! i;
                   prevClose = (if i = 0 then None else t_c (bars ! (i - 1)))
               in trueRange prevClose (t_h b) (t_l b))
         [0 ..< length bars]"

text \<open>The second loop: \<open>atr = (atr * (period - 1) + trs[i]) / period\<close> from \<open>i = period\<close>.\<close>

function atr_loop :: "real list \<Rightarrow> nat \<Rightarrow> nat \<Rightarrow> real \<Rightarrow> real" where
  "atr_loop trs period i atr =
     (if i < length trs
      then atr_loop trs period (i + 1) ((atr * (real period - 1) + trs ! i) / real period)
      else atr)"
  by pat_completeness auto
termination
  by (relation "measure (\<lambda>(trs, period, i, atr). length trs - i)") auto

definition atr14 :: "hlc list \<Rightarrow> real option" where
  "atr14 bars =
     (let period = 14 in
      if length bars < period + 1 then None
      else let trs = true_ranges bars;
               atr = sum_reduce (take period trs) / real period
           in Some (atr_loop trs period period atr))"

definition zscore :: "real list \<Rightarrow> nat \<Rightarrow> real option" where
  "zscore values lookback =
     (if length values < lookback then None
      else let slice = drop (length values - lookback) values;
               mean = sum_reduce slice / real lookback;
               varr = foldl (\<lambda>a b. a + (b - mean) * (b - mean)) 0 slice / real lookback;
               sd = sqrt varr
           in if sd = 0 then Some 0
              else Some ((values ! (length values - 1) - mean) / sd))"

subsection \<open>Data model\<close>

text \<open>
  A history record, as update_mcx.js writes it to the history log and reads it back
  (\<open>JSON.parse\<close> of \<open>JSON.stringify\<close> is the identity on such records, so the log is a
  list of records). Field \<open>x\<close> of the source is \<open>b_x\<close>. The records that main writes
  carry \<open>volume\<close> and \<open>open_interest\<close>; computeScore reads \<open>vol\<close> and \<open>oi\<close>, which such a
  record does not have (\<open>None\<close>). computeScore uses \<open>h\<close> and \<open>l\<close> unguarded and main
  stores them only when \<open>typeof\<close> is number, so they are numbers here; \<open>c\<close>, \<open>vol\<close>
  and \<open>oi\<close> are filtered and guarded by the code, so they may be missing.
\<close>

record bar =
  b_date :: string
  b_exchange :: string
  b_instrument :: string
  b_expiry :: "string option"
  b_o :: real
  b_h :: real
  b_l :: real
  b_c :: "real option"
  b_prev_close :: "real option"
  b_volume :: "real option"
  b_value :: "real option"
  b_open_interest :: "real option"
  b_updated :: string
  b_source :: string
  b_vol :: "real option"
  b_oi :: "real option"

datatype verdict = BUY | SELL | HOLD

record indicators =
  s_ret_1d :: real
  s_ret_5d :: real
  s_ema20 :: "real option"
  s_ema50 :: "real option"
  s_ema_spread :: real
  s_atr14 :: "real option"
  s_atr_pct :: real
  s_vol_z60 :: real
  s_oi_z60 :: real
  s_trend :: real
  s_momentum :: real
  s_participation :: real

datatype signal_bundle = Reason string | Indicators indicators

record result =
  score :: real
  verdict :: verdict
  confidence :: int
  signals :: signal_bundle

subsection \<open>JavaScript operators used by computeScore\<close>

text \<open>\<open>xs[i]\<close>: undefined outside the array.\<close>

definition js_index :: "'a list \<Rightarrow> int \<Rightarrow> 'a option" where
  "js_index xs i = (if 0 \<le> i \<and> i < int (length xs) then Some (xs ! nat i) else None)"

text \<open>\<open>.filter(n => typeof n === "number")\<close>.\<close>

fun numbers :: "real option list \<Rightarrow> real list" where
  "numbers [] = []"
| "numbers (None # xs) = numbers xs"
| "numbers (Some x # xs) = x # numbers xs"

text \<open>
  \<open>(base && cur) ? (cur / base - 1) : 0\<close>: a missing value and the number 0 are falsy.
\<close>

definition ret :: "real option \<Rightarrow> real option \<Rightarrow> real" where
  "ret base cur =
     (case (base, cur) of
        (Some p, Some q) \<Rightarrow> if p \<noteq> 0 \<and> q \<noteq> 0 then q / p - 1 else 0
      | _ \<Rightarrow> 0)"

definition clamp :: "real \<Rightarrow> real \<Rightarrow> real \<Rightarrow> real" where
  "clamp x a b = max a (min b x)"

text \<open>\<open>Math.round\<close>: the nearest integer, a tie going up.\<close>

definition js_round :: "real \<Rightarrow> int" where
  "js_round x = \<lfloor>x + 1 / 2\<rfloor>"

text \<open>\<open>x ?? 0\<close>.\<close>

definition or_zero :: "real option \<Rightarrow> real" where
  "or_zero x = (case x of None \<Rightarrow> 0 | Some v \<Rightarrow> v)"

subsection \<open>computeScore\<close>

definition computeScore :: "bar list \<Rightarrow> result" where
  "computeScore history =
     (if length history < 60
      then \<lparr>score = 0, verdict = HOLD, confidence = 0,
            signals = Reason ''need >= 60 days history''\<rparr>
      else
        let closes = numbers (map b_c history);
            vols = numbers (map b_vol history);
            ois = numbers (map b_oi history);
            last = js_index history (int (length history) - 1);
            prev = js_index history (int (length history) - 2);
            ret1d = ret (Option.bind prev b_c) (Option.bind last b_c);
            idx5 = int (length history) - 6;
            base5 = Option.bind (js_index history idx5) b_c;
            ret5d = ret base5 (Option.bind last b_c);
            ema20 = ema closes 20;
            ema50 = ema closes 50;
            emaSpread = (case (ema20, ema50) of
                           (Some e20, Some e50) \<Rightarrow> if e50 \<noteq> 0 then e20 / e50 - 1 else 0
                         | _ \<Rightarrow> 0);
            atr = atr14 (map (\<lambda>x. \<lparr>t_h = b_h x, t_l = b_l x, t_c = b_c x\<rparr>) history);
            volZ = or_zero (zscore vols 60);
            oiZ = or_zero (zscore ois 60);
            trend = clamp (emaSpread * 10) (- 1) 1;
            mom = clamp (ret5d * 8 + ret1d * 3) (- 1) 1;
            participation = clamp (oiZ / 3 + volZ / 3) (- 1) 1;
            atrPct = (case (atr, Option.bind last b_c) of
                        (Some a, Some c) \<Rightarrow> if c \<noteq> 0 then a / c else 0
                      | _ \<Rightarrow> 0);
            riskPenalty = clamp ((atrPct - 1 / 100) * 20) 0 (6 / 10);
            scr = clamp (5 / 10 * trend + 3 / 10 * mom + 2 / 10 * participation) (- 1) 1;
            vd = (if scr > 25 / 100 then BUY else if scr < - (25 / 100) then SELL else HOLD);
            aligned = [if sgn trend = sgn scr then 1 else 0,
                       if sgn mom = sgn scr then 1 else 0,
                       if sgn participation = sgn scr then 1 else 0];
            agreement = sum_reduce aligned / real (length aligned);
            dataQuality = 1;
            rawConf = 55 / 100 * \<bar>scr\<bar> + 25 / 100 * agreement + 20 / 100 * dataQuality;
            conf = js_round (100 * clamp (rawConf * (1 - riskPenalty)) 0 1)
        in \<lparr>score = scr, verdict = vd, confidence = conf,
            signals = Indicators
              \<lparr>s_ret_1d = ret1d, s_ret_5d = ret5d, s_ema20 = ema20, s_ema50 = ema50,
               s_ema_spread = emaSpread, s_atr14 = atr, s_atr_pct = atrPct,
               s_vol_z60 = volZ, s_oi_z60 = oiZ, s_trend = trend, s_momentum = mom,
               s_participation = participation\<rparr>\<rparr>)"

subsection \<open>The ingestion run (main of update_mcx.js)\<close>

text \<open>
  The result of mapRowToBar: every numeric field went through toNumber, which returns a
  finite number or null.
\<close>

record mapped_bar =
  m_symbol :: string
  m_expiry :: "string option"
  m_o :: "real option"
  m_h :: "real option"
  m_l :: "real option"
  m_c :: "real option"
  m_pc :: "real option"
  m_vol :: "real option"
  m_val :: "real option"
  m_oi :: "real option"

text \<open>The object written to the latest snapshot file.\<close>

record latest_json =
  j_date :: string
  j_exchange :: string
  j_instrument :: string
  j_expiry :: "string option"
  j_ohlc_o :: real
  j_ohlc_h :: real
  j_ohlc_l :: real
  j_ohlc_c :: "real option"
  j_prev_close :: "real option"
  j_volume :: "real option"
  j_value :: "real option"
  j_open_interest :: "real option"
  j_signals :: signal_bundle
  j_score :: real
  j_verdict :: verdict
  j_confidence :: int
  j_updated :: string
  j_source :: string

text \<open>
  The two files of the data directory: the history log, one record a line (no file is
  the empty list, as loadHistory reads it), and the latest snapshot.
\<close>

record files =
  history_file :: "bar list"
  latest_file :: "latest_json option"

text \<open>What a run leaves: the files, and the in-memory history after the sort.\<close>

record run =
  files_after :: files
  store :: "bar list"

datatype failure = Exit nat | TypeError

text \<open>A string argument is truthy when it is present and not empty.\<close>

definition truthy_str :: "string option \<Rightarrow> bool" where
  "truthy_str x = (case x of None \<Rightarrow> False | Some s \<Rightarrow> s \<noteq> [])"

text \<open>
  \<open>history.sort(cmp)\<close>. The sort of the language is stable; with a comparator that is a
  total preorder, as localeCompare is, every stable sort returns the same list. It is
  written here as insertion from the left, a new element going behind its equals.
\<close>

fun insert_by :: "('a \<Rightarrow> 'a \<Rightarrow> int) \<Rightarrow> 'a \<Rightarrow> 'a list \<Rightarrow> 'a list" where
  "insert_by cmp x [] = [x]"
| "insert_by cmp x (y # ys) =
     (if cmp x y < 0 then x # y # ys else y # insert_by cmp x ys)"

definition sort_by :: "('a \<Rightarrow> 'a \<Rightarrow> int) \<Rightarrow> 'a list \<Rightarrow> 'a list" where
  "sort_by cmp xs = foldl (\<lambda>acc x. insert_by cmp x acc) [] xs"

text \<open>
  The object \<open>latestJson\<close> of main: the newest bar of the sorted history, the result of
  computeScore and the time of the run.
\<close>

definition latestJson :: "bar \<Rightarrow> result \<Rightarrow> string \<Rightarrow> latest_json" where
  "latestJson latest calc now =
     \<lparr>j_date = b_date latest, j_exchange = b_exchange latest,
      j_instrument = b_instrument latest, j_expiry = b_expiry latest,
      j_ohlc_o = b_o latest, j_ohlc_h = b_h latest,
      j_ohlc_l = b_l latest, j_ohlc_c = b_c latest,
      j_prev_close = b_prev_close latest, j_volume = b_volume latest,
      j_value = b_value latest, j_open_interest = b_open_interest latest,
      j_signals = signals calc, j_score = score calc,
      j_verdict = verdict calc, j_confidence = confidence calc,
      j_updated = now, j_source = ''MCX_BHAVCOPY''\<rparr>"

text \<open>
  One run, from the mapped bar on. The command line gives \<open>file\<close>, \<open>url\<close> and \<open>date\<close>;
  \<open>goldRow\<close> is the bar mapped from the row that extractGoldRow found (\<open>None\<close> when it
  found none); \<open>now1\<close> and \<open>now2\<close> are the two readings of the clock
  (\<open>new Date().toISOString()\<close>), the first for the record and the second for the
  snapshot; \<open>localeCompare\<close> is the string comparison of the runtime. Downloading and
  parsing the CSV happen before and are not modelled.
\<close>

definition main ::
  "(string \<Rightarrow> string \<Rightarrow> int) \<Rightarrow> string option \<Rightarrow> string option \<Rightarrow> string \<Rightarrow>
   mapped_bar option \<Rightarrow> string \<Rightarrow> string \<Rightarrow> files \<Rightarrow> failure + run" where
  "main localeCompare file url date goldRow now1 now2 fs =
     (if \<not> truthy_str file \<and> \<not> truthy_str url then Inl (Exit 1)
      else case goldRow of
        None \<Rightarrow> Inl (Exit 2)
      | Some bar \<Rightarrow>
         (case (m_o bar, m_h bar, m_l bar, m_c bar) of
            (Some o', Some h', Some l', Some c') \<Rightarrow>
              let history = history_file fs;
                  exists = list_ex (\<lambda>x. b_date x = date) history;
                  record =
                    \<lparr>b_date = date, b_exchange = ''MCX'', b_instrument = ''GOLD'',
                     b_expiry = (if truthy_str (m_expiry bar) then m_expiry bar else None),
                     b_o = o', b_h = h', b_l = l', b_c = Some c',
                     b_prev_close = m_pc bar, b_volume = m_vol bar, b_value = m_val bar,
                     b_open_interest = m_oi bar, b_updated = now1,
                     b_source = (if truthy_str file then ''MCX_BHAVCOPY_FILE''
                                 else ''MCX_BHAVCOPY_URL''),
                     b_vol = None, b_oi = None\<rparr>;
                  fs' = (if \<not> exists then fs\<lparr>history_file := history_file fs @ [record]\<rparr>
                         else fs);
                  history' = (if \<not> exists then history @ [record] else history);
                  sorted = sort_by (\<lambda>a b. localeCompare (b_date a) (b_date b)) history';
                  calc = computeScore sorted
              in (case js_index sorted (int (length sorted) - 1) of
                    None \<Rightarrow> Inl TypeError
                  | Some latest \<Rightarrow>
                      Inr \<lparr>files_after =
                             fs'\<lparr>latest_file := Some (latestJson latest calc now2)\<rparr>,
                           store = sorted\<rparr>)
          | _ \<Rightarrow> Inl (Exit 3)))"

subsection \<open>The indicators as the specification words them\<close>

text \<open>
  The exponential moving average of the specification: the seed is the simple moving
  average of the first \<open>period\<close> elements, and each later element \<open>v\<close> blends in as
  \<open>v * k + e * (1 - k)\<close> with \<open>k = 2 / (period + 1)\<close>.
\<close>

definition ema_spec :: "real list \<Rightarrow> nat \<Rightarrow> real option" where
  "ema_spec values period =
     (if length values < period then None
      else case sma (take period values) period of
             None \<Rightarrow> None
           | Some seed \<Rightarrow>
               Some (fold (\<lambda>v e. v * (2 / (real period + 1)) + e * (1 - 2 / (real period + 1)))
                          (drop period values) seed))"

text \<open>
  The true range of the specification, \<open>max(high - low, |high - pc|, |low - pc|)\<close>, or
  \<open>high - low\<close> without a previous close; the true ranges of a bar sequence, each bar
  against the close of the bar before it, the first against none.
\<close>

definition trueRange_spec :: "real option \<Rightarrow> real \<Rightarrow> real \<Rightarrow> real" where
  "trueRange_spec prevClose high low =
     (case prevClose of
        None \<Rightarrow> high - low
      | Some pc \<Rightarrow> Max {high - low, \<bar>high - pc\<bar>, \<bar>low - pc\<bar>})"

fun true_ranges_spec :: "real option \<Rightarrow> hlc list \<Rightarrow> real list" where
  "true_ranges_spec prevClose [] = []"
| "true_ranges_spec prevClose (b # bs) =
     trueRange_spec prevClose (t_h b) (t_l b) # true_ranges_spec (t_c b) bs"

text \<open>
  Wilder's average of the specification: the mean of the first 14 true ranges, then
  \<open>(atr * 13 + tr) / 14\<close> for each later true range; unavailable below 15 bars.
\<close>

definition atr14_spec :: "hlc list \<Rightarrow> real option" where
  "atr14_spec bars =
     (if length bars < 15 then None
      else let trs = true_ranges_spec None bars
           in Some (fold (\<lambda>tr atr. (atr * 13 + tr) / 14) (drop 14 trs)
                         (sum_list (take 14 trs) / 14)))"

subsection \<open>Example histories\<close>

text \<open>
  Sixty trading days with ascending dates, used to run the functions above on concrete
  inputs: a flat market, closes rising in equal steps from 2000 to 2100, and a market
  whose score is exactly one quarter.
\<close>

definition two_digits :: "nat \<Rightarrow> string" where
  "two_digits n = [char_of (48 + n div 10), char_of (48 + n mod 10)]"

definition day :: "nat \<Rightarrow> string" where
  "day i = (if i < 31 then ''2026-01-'' @ two_digits (i + 1)
            else ''2026-03-'' @ two_digits (i - 30))"

definition example_bar ::
  "nat \<Rightarrow> real \<Rightarrow> real \<Rightarrow> real \<Rightarrow> real option \<Rightarrow> real option \<Rightarrow> bar" where
  "example_bar i hi lo cl v w =
     \<lparr>b_date = day i, b_exchange = ''MCX'', b_instrument = ''GOLD'', b_expiry = None,
      b_o = cl, b_h = hi, b_l = lo, b_c = Some cl, b_prev_close = None,
      b_volume = v, b_value = None, b_open_interest = w,
      b_updated = ''2026-03-29T12:00:00.000Z'', b_source = ''MCX_BHAVCOPY_FILE'',
      b_vol = v, b_oi = w\<rparr>"

definition flat_history :: "real \<Rightarrow> real \<Rightarrow> real \<Rightarrow> bar list" where
  "flat_history hi lo cl = map (\<lambda>i. example_bar i hi lo cl (Some 1000) (Some 500)) [0..<60]"

definition rising_close :: "nat \<Rightarrow> real" where
  "rising_close i = 2000 + real i * (100 / 59)"

definition rising_history :: "bar list" where
  "rising_history =
     map (\<lambda>i. example_bar i (rising_close i) (rising_close i) (rising_close i)
                (Some 1000) (Some 500)) [0..<60]"

definition boundary_close :: "nat \<Rightarrow> real" where
  "boundary_close i = (if i < 50 then 100 else if i < 59 then 1000 else 30500 / 33)"

definition boundary_history :: "bar list" where
  "boundary_history =
     map (\<lambda>i. example_bar i (boundary_close i) (boundary_close i) (boundary_close i)
                None None) [0..<60]"

text \<open>
  Two runs for the same date on an empty data directory, one minute apart. On the dates
  of the log (digits and hyphens) the comparison of the runtime is the comparison of the
  strings character by character, which \<open>str_compare\<close> is.
\<close>

fun str_compare :: "string \<Rightarrow> string \<Rightarrow> int" where
  "str_compare [] [] = 0"
| "str_compare [] (y # ys) = - 1"
| "str_compare (x # xs) [] = 1"
| "str_compare (x # xs) (y # ys) =
     (if (of_char x :: nat) < of_char y then - 1
      else if (of_char y :: nat) < of_char x then 1
      else str_compare xs ys)"

definition example_row :: mapped_bar where
  "example_row =
     \<lparr>m_symbol = ''GOLD'', m_expiry = Some ''2026-04-03'', m_o = Some 2000,
      m_h = Some 2010, m_l = Some 1990, m_c = Some 2005, m_pc = Some 1998,
      m_vol = Some 1000, m_val = None, m_oi = Some 500\<rparr>"

definition first_run :: "failure + run" where
  "first_run =
     main str_compare (Some ''bhavcopy.csv'') None ''2026-02-18'' (Some example_row)
       ''2026-02-18T10:00:00.000Z'' ''2026-02-18T10:00:00.002Z''
       \<lparr>history_file = [], latest_file = None\<rparr>"

definition second_run :: "failure + run" where
  "second_run =
     (case first_run of
        Inl e \<Rightarrow> Inl e
      | Inr r \<Rightarrow>
          main str_compare (Some ''bhavcopy.csv'') None ''2026-02-18'' (Some example_row)
            ''2026-02-18T10:01:00.000Z'' ''2026-02-18T10:01:00.002Z'' (files_after r))"

section \<open>Properties\<close>

subsection \<open>Loops as folds\<close>

text \<open>
  The equations of the two loops rewrite a loop by itself; they are used only through the
  lemmas below.
\<close>

declare ema_loop.simps [simp del]
declare atr_loop.simps [simp del]

lemma ema_loop_foldl:
  "i \<le> length vs \<Longrightarrow>
   ema_loop vs k i e = foldl (\<lambda>e v. v * k + e * (1 - k)) e (drop i vs)"
proof (induction vs k i e rule: ema_loop.induct)
  case (1 vs k i e)
  show ?case
  proof (cases "i < length vs")
    case True
    then have d: "drop i vs = vs ! i # drop (Suc i) vs"
      by (simp add: Cons_nth_drop_Suc)
    have "ema_loop vs k i e = ema_loop vs k (i + 1) (vs ! i * k + e * (1 - k))"
      using True by (subst ema_loop.simps) simp
    with True 1 show ?thesis
      by (simp add: d)
  next
    case False
    then have "ema_loop vs k i e = e"
      by (subst ema_loop.simps) simp
    with False 1 show ?thesis
      by simp
  qed
qed

lemma atr_loop_foldl:
  "i \<le> length trs \<Longrightarrow>
   atr_loop trs p i a = foldl (\<lambda>a tr. (a * (real p - 1) + tr) / real p) a (drop i trs)"
proof (induction trs p i a rule: atr_loop.induct)
  case (1 trs p i a)
  show ?case
  proof (cases "i < length trs")
    case True
    then have d: "drop i trs = trs ! i # drop (Suc i) trs"
      by (simp add: Cons_nth_drop_Suc)
    have "atr_loop trs p i a =
          atr_loop trs p (i + 1) ((a * (real p - 1) + trs ! i) / real p)"
      using True by (subst atr_loop.simps) simp
    with True 1 show ?thesis
      by (simp add: d)
  next
    case False
    then have "atr_loop trs p i a = a"
      by (subst atr_loop.simps) simp
    with False 1 show ?thesis
      by simp
  qed
qed

lemma foldl_flip_fold: "foldl (\<lambda>e v. f v e) e xs = fold f xs e"
  by (induction xs arbitrary: e) simp_all

lemma sum_reduce_sum_list: "sum_reduce xs = sum_list xs"
proof -
  have "foldl (\<lambda>a b. a + b) a xs = a + sum_list xs" for a :: real
    by (induction xs arbitrary: a) simp_all
  then show ?thesis by (simp add: sum_reduce_def)
qed

lemma sum_list_all_equal:
  "(\<And>x. x \<in> set xs \<Longrightarrow> x = a) \<Longrightarrow> sum_list xs = real (length xs) * (a::real)"
  by (induction xs) (simp_all add: algebra_simps)

lemma squares_all_equal:
  "(\<And>x. x \<in> set xs \<Longrightarrow> x = m) \<Longrightarrow>
   foldl (\<lambda>a b. a + (b - m) * (b - m)) (r::real) xs = r"
  by (induction xs arbitrary: r) simp_all

lemma zscore_all_equal:
  assumes "0 < lookback" and "lookback \<le> length vs"
    and eq: "\<And>x. x \<in> set (drop (length vs - lookback) vs) \<Longrightarrow> x = a"
  shows "zscore vs lookback = Some 0"
proof -
  let ?w = "drop (length vs - lookback) vs"
  have len: "length ?w = lookback"
    using assms(2) by simp
  have m: "sum_reduce ?w / real lookback = a"
    using assms(1) sum_list_all_equal [of ?w a] eq len by (simp add: sum_reduce_sum_list)
  have v: "foldl (\<lambda>x b. x + (b - a) * (b - a)) 0 ?w = 0"
    using squares_all_equal [of ?w a] eq by blast
  show ?thesis
    using assms(2) by (simp add: zscore_def Let_def m v)
qed

subsection \<open>The true ranges, bar by bar\<close>

lemma trueRange_spec_eq: "trueRange_spec p hi lo = trueRange p hi lo"
  by (simp add: trueRange_spec_def trueRange_def max.assoc split: option.splits)

lemma length_true_ranges_spec: "length (true_ranges_spec p bars) = length bars"
  by (induction bars arbitrary: p) simp_all

lemma nth_true_ranges_spec:
  "i < length bars \<Longrightarrow>
   true_ranges_spec p bars ! i =
     trueRange (if i = 0 then p else t_c (bars ! (i - 1))) (t_h (bars ! i)) (t_l (bars ! i))"
proof (induction bars arbitrary: p i)
  case Nil
  then show ?case by simp
next
  case (Cons b bs)
  show ?case
  proof (cases i)
    case 0
    then show ?thesis by (simp add: trueRange_spec_eq)
  next
    case (Suc j)
    with Cons.prems have "j < length bs" by simp
    from Cons.IH [OF this, of "t_c b"] Suc show ?thesis
      by (cases j) simp_all
  qed
qed

lemma true_ranges_eq: "true_ranges bars = true_ranges_spec None bars"
  by (rule nth_equalityI)
     (simp_all add: true_ranges_def length_true_ranges_spec nth_true_ranges_spec Let_def)

subsection \<open>What computeScore reads and what it returns\<close>

lemma js_index_from_end:
  "0 < n \<Longrightarrow> n \<le> length xs \<Longrightarrow>
   js_index xs (int (length xs) - int n) = Some (xs ! (length xs - n))"
  by (simp add: js_index_def nat_diff_distrib' of_nat_diff)

lemma bind_js_index_map:
  "Option.bind (js_index xs i) f = Option.bind (js_index (map f xs) i) (\<lambda>x. x)"
  by (auto simp add: js_index_def)

lemma bind_js_index_replicate:
  "0 < k \<Longrightarrow> k \<le> n \<Longrightarrow>
   Option.bind (js_index (replicate n y) (int n - int k)) (\<lambda>x. x) = y"
  by (simp add: js_index_def)

lemma computeScore_verdict:
  "verdict (computeScore h) =
     (if score (computeScore h) > 1 / 4 then BUY
      else if score (computeScore h) < - (1 / 4) then SELL else HOLD)"
  by (simp add: computeScore_def Let_def)

text \<open>
  On 60 bars or more the result carries the indicators, and its fields are related as
  the assignments of computeScore relate them.
\<close>

lemma computeScore_bundle:
  assumes "60 \<le> length h"
  obtains ind where
    "signals (computeScore h) = Indicators ind"
    "s_ret_1d ind = ret (b_c (h ! (length h - 2))) (b_c (h ! (length h - 1)))"
    "s_ret_5d ind = ret (b_c (h ! (length h - 6))) (b_c (h ! (length h - 1)))"
    "s_ema20 ind = ema (numbers (map b_c h)) 20"
    "s_ema50 ind = ema (numbers (map b_c h)) 50"
    "s_ema_spread ind =
       (case (s_ema20 ind, s_ema50 ind) of
          (Some e20, Some e50) \<Rightarrow> if e50 \<noteq> 0 then e20 / e50 - 1 else 0
        | _ \<Rightarrow> 0)"
    "s_atr14 ind = atr14 (map (\<lambda>x. \<lparr>t_h = b_h x, t_l = b_l x, t_c = b_c x\<rparr>) h)"
    "s_atr_pct ind =
       (case (s_atr14 ind, b_c (h ! (length h - 1))) of
          (Some a, Some c) \<Rightarrow> if c \<noteq> 0 then a / c else 0
        | _ \<Rightarrow> 0)"
    "s_vol_z60 ind = or_zero (zscore (numbers (map b_vol h)) 60)"
    "s_oi_z60 ind = or_zero (zscore (numbers (map b_oi h)) 60)"
    "s_trend ind = clamp (s_ema_spread ind * 10) (- 1) 1"
    "s_momentum ind = clamp (s_ret_5d ind * 8 + s_ret_1d ind * 3) (- 1) 1"
    "s_participation ind = clamp (s_oi_z60 ind / 3 + s_vol_z60 ind / 3) (- 1) 1"
    "score (computeScore h) =
       clamp (1 / 2 * s_trend ind + 3 / 10 * s_momentum ind + 1 / 5 * s_participation ind)
             (- 1) 1"
    "confidence (computeScore h) =
       js_round (100 * clamp
         ((11 / 20 * \<bar>score (computeScore h)\<bar>
           + 1 / 4 * (((if sgn (s_trend ind) = sgn (score (computeScore h)) then 1 else 0)
                     + (if sgn (s_momentum ind) = sgn (score (computeScore h)) then 1 else 0)
                     + (if sgn (s_participation ind) = sgn (score (computeScore h))
                        then 1 else 0)) / 3)
           + 1 / 5)
          * (1 - clamp ((s_atr_pct ind - 1 / 100) * 20) 0 (3 / 5))) 0 1)"
proof -
  have i1: "js_index h (int (length h) - 1) = Some (h ! (length h - 1))"
    using js_index_from_end [of 1 h] assms by simp
  have i2: "js_index h (int (length h) - 2) = Some (h ! (length h - 2))"
    using js_index_from_end [of 2 h] assms by simp
  have i6: "js_index h (int (length h) - 6) = Some (h ! (length h - 6))"
    using js_index_from_end [of 6 h] assms by simp
  show ?thesis
    using assms
    by (intro that [of "case signals (computeScore h) of Indicators i \<Rightarrow> i"])
       (simp_all add: computeScore_def Let_def i1 i2 i6 sum_reduce_def
          cong: option.case_cong)
qed

text \<open>The score and the verdict are a function of the closes, volumes and open interests.\<close>

lemma score_verdict_depend:
  assumes "map b_c h1 = map b_c h2" "map b_vol h1 = map b_vol h2" "map b_oi h1 = map b_oi h2"
  shows "score (computeScore h1) = score (computeScore h2)
       \<and> verdict (computeScore h1) = verdict (computeScore h2)"
proof -
  have len: "length h1 = length h2"
    using assms(1) by (rule map_eq_imp_length_eq)
  have s: "score (computeScore h1) = score (computeScore h2)"
    unfolding computeScore_def Let_def bind_js_index_map [where f = b_c]
    by (simp add: assms len)
  then show ?thesis
    by (simp add: computeScore_verdict)
qed

subsection \<open>Flat markets\<close>

lemma map_const_replicate:
  "(\<And>x. x \<in> set xs \<Longrightarrow> f x = c) \<Longrightarrow> map f xs = replicate (length xs) c"
  by (induction xs) simp_all

lemma numbers_replicate_Some: "numbers (replicate n (Some x)) = replicate n x"
  by (induction n) simp_all

lemma numbers_replicate_None: "numbers (replicate n None) = []"
  by (induction n) simp_all

lemma numbers_map_Some: "numbers (map (\<lambda>i. Some (f i)) xs) = map f xs"
  by (induction xs) simp_all

lemma blend_replicate:
  "foldl (\<lambda>e v. v * k + e * (1 - k)) x (replicate m x) = (x::real)"
  by (induction m) (simp_all add: algebra_simps)

lemma ema_replicate:
  assumes "0 < p" "p \<le> n"
  shows "ema (replicate n x) p = Some x"
proof -
  have "sum_reduce (take p (replicate n x)) / real p = x"
    using assms by (simp add: sum_reduce_sum_list sum_list_replicate min_def)
  then show ?thesis
    using assms by (simp add: ema_def Let_def ema_loop_foldl blend_replicate)
qed

lemma zscore_replicate:
  "0 < p \<Longrightarrow> p \<le> n \<Longrightarrow> zscore (replicate n x) p = Some 0"
  by (rule zscore_all_equal [where a = x]) (auto dest: in_set_dropD)

lemma or_zero_zscore_flat:
  assumes "60 \<le> n"
  shows "or_zero (zscore (numbers (replicate n v)) 60) = 0"
proof (cases v)
  case None
  then show ?thesis
    by (simp add: numbers_replicate_None zscore_def or_zero_def)
next
  case (Some x)
  then show ?thesis
    using assms zscore_replicate [of 60 n x]
    by (simp add: numbers_replicate_Some or_zero_def)
qed

lemma atr14_eq_spec: "atr14 bars = atr14_spec bars"
  by (simp add: atr14_def atr14_spec_def Let_def atr_loop_foldl true_ranges_eq
      length_true_ranges_spec sum_reduce_sum_list foldl_flip_fold)

lemma true_ranges_spec_flat:
  assumes "lo \<le> x" "x \<le> hi" "p = None \<or> p = Some x"
  shows "true_ranges_spec p (replicate n \<lparr>t_h = hi, t_l = lo, t_c = Some x\<rparr>)
         = replicate n (hi - lo)"
  using assms(3)
proof (induction n arbitrary: p)
  case 0
  then show ?case by simp
next
  case (Suc n)
  have "trueRange_spec p hi lo = hi - lo"
    using Suc.prems assms(1,2) by (auto simp add: trueRange_spec_def)
  then show ?case
    using Suc.IH [of "Some x"] by simp
qed

lemma wilder_replicate:
  "fold (\<lambda>tr atr. (atr * 13 + tr) / 14) (replicate m d) d = (d::real)"
  by (induction m) simp_all

lemma atr14_flat:
  assumes "lo \<le> x" "x \<le> hi" "15 \<le> n"
  shows "atr14 (replicate n \<lparr>t_h = hi, t_l = lo, t_c = Some x\<rparr>) = Some (hi - lo)"
proof -
  let ?bars = "replicate n \<lparr>t_h = hi, t_l = lo, t_c = Some x\<rparr>"
  have trs: "true_ranges_spec None ?bars = replicate n (hi - lo)"
    using assms(1,2) by (simp add: true_ranges_spec_flat)
  have nl: "\<not> length ?bars < 15"
    using assms(3) by simp
  have d14: "drop 14 (replicate n (hi - lo)) = replicate (n - 14) (hi - lo)"
    by simp
  have t14: "sum_list (take 14 (replicate n (hi - lo))) / 14 = hi - lo"
    using assms(3) by (simp add: sum_list_replicate min_def)
  have "atr14_spec ?bars = Some (hi - lo)"
    by (simp only: atr14_spec_def Let_def nl if_False trs d14 t14 wilder_replicate)
  then show ?thesis
    by (simp add: atr14_eq_spec)
qed

text \<open>
  A history whose bars all carry the same close, high, low, volume and open interest,
  the close between low and high: the score is 0, and only the risk penalty moves the
  confidence away from 45.
\<close>

lemma computeScore_flat:
  assumes n: "60 \<le> length h"
    and flat: "\<And>b. b \<in> set h \<Longrightarrow>
                 b_c b = Some x \<and> b_h b = hi \<and> b_l b = lo \<and> b_vol b = v \<and> b_oi b = w"
    and lo: "lo \<le> x" and hi: "x \<le> hi"
  shows "score (computeScore h) = 0 \<and> verdict (computeScore h) = HOLD
       \<and> confidence (computeScore h) =
           js_round (100 * clamp (45 / 100 *
             (1 - clamp (((if x = 0 then 0 else (hi - lo) / x) - 1 / 100) * 20) 0 (6 / 10))) 0 1)"
proof -
  let ?n = "length h"
  have mc: "map b_c h = replicate ?n (Some x)"
    using flat by (intro map_const_replicate) simp
  have mv: "map b_vol h = replicate ?n v"
    using flat by (intro map_const_replicate) simp
  have mo: "map b_oi h = replicate ?n w"
    using flat by (intro map_const_replicate) simp
  have mb: "map (\<lambda>x. \<lparr>t_h = b_h x, t_l = b_l x, t_c = b_c x\<rparr>) h
            = replicate ?n \<lparr>t_h = hi, t_l = lo, t_c = Some x\<rparr>"
    using flat by (intro map_const_replicate) simp
  have e20: "ema (replicate ?n x) 20 = Some x" and e50: "ema (replicate ?n x) 50 = Some x"
    using n by (simp_all add: ema_replicate)
  have atr: "atr14 (replicate ?n \<lparr>t_h = hi, t_l = lo, t_c = Some x\<rparr>) = Some (hi - lo)"
    using n lo hi by (simp add: atr14_flat)
  have zv: "or_zero (zscore (numbers (replicate ?n v)) 60) = 0"
    and zo: "or_zero (zscore (numbers (replicate ?n w)) 60) = 0"
    using n by (simp_all add: or_zero_zscore_flat)
  have i1: "Option.bind (js_index (replicate ?n (Some x)) (int ?n - 1)) (\<lambda>x. x) = Some x"
    using bind_js_index_replicate [of 1 ?n "Some x"] n by simp
  have i2: "Option.bind (js_index (replicate ?n (Some x)) (int ?n - 2)) (\<lambda>x. x) = Some x"
    using bind_js_index_replicate [of 2 ?n "Some x"] n by simp
  have i6: "Option.bind (js_index (replicate ?n (Some x)) (int ?n - 6)) (\<lambda>x. x) = Some x"
    using bind_js_index_replicate [of 6 ?n "Some x"] n by simp
  have r: "ret (Some x) (Some x) = 0"
    by (simp add: ret_def)
  have s: "score (computeScore h) = 0"
    unfolding computeScore_def Let_def bind_js_index_map [where f = b_c]
    using n
    by (simp add: mc mv mo numbers_replicate_Some e20 e50 zv zo i1 i2 i6 r clamp_def)
  have c: "confidence (computeScore h) =
           js_round (100 * clamp (45 / 100 *
             (1 - clamp (((if x = 0 then 0 else (hi - lo) / x) - 1 / 100) * 20) 0 (6 / 10))) 0 1)"
    unfolding computeScore_def Let_def bind_js_index_map [where f = b_c]
    using n
    by (simp add: mc mv mo mb numbers_replicate_Some e20 e50 atr zv zo i1 i2 i6 r
        clamp_def [of 0] clamp_def [of "_ * _ + _"] sum_reduce_def)
  from s c show ?thesis
    by (simp add: computeScore_verdict)
qed

lemma flat_history_props:
  "length (flat_history hi lo cl) = 60"
  "b \<in> set (flat_history hi lo cl) \<Longrightarrow>
     b_c b = Some cl \<and> b_h b = hi \<and> b_l b = lo \<and> b_vol b = Some 1000 \<and> b_oi b = Some 500"
  by (auto simp add: flat_history_def example_bar_def)

subsection \<open>Closes rising in equal steps\<close>











lemma rising_history_bars:
  "length rising_history = 60"
  "\<forall>i<60. b_c (rising_history ! i) = Some (rising_close i)
          \<and> b_h (rising_history ! i) = rising_close i
          \<and> b_l (rising_history ! i) = rising_close i
          \<and> b_vol (rising_history ! i) = Some 1000 \<and> b_oi (rising_history ! i) = Some 500"
  by (simp_all add: rising_history_def example_bar_def)

lemma rising_history_nth:
  "i < 60 \<Longrightarrow> b_c (rising_history ! i) = Some (rising_close i)"
  by (simp add: rising_history_bars)


subsection \<open>A market at the threshold\<close>

lemma boundary_closes:
  "map boundary_close [0..<60] = replicate 50 100 @ replicate 9 1000 @ [30500 / 33]"
proof -
  have u: "[0..<60] = [0..<50] @ [50..<59] @ [59]"
    using upt_add_eq_append [of 0 50 10] upt_add_eq_append [of 50 59 1] by simp
  have "map boundary_close [0..<50] = replicate (length [0..<50]) 100"
    by (rule map_const_replicate) (simp add: boundary_close_def)
  then have a: "map boundary_close [0..<50] = replicate 50 100"
    by (simp only: length_upt diff_zero)
  have "map boundary_close [50..<59] = replicate (length [50..<59]) 1000"
    by (rule map_const_replicate) (auto simp add: boundary_close_def)
  moreover have "length [50..<59] = 9"
    by simp
  ultimately have b: "map boundary_close [50..<59] = replicate 9 1000"
    by (simp only:)
  have c: "map boundary_close [59] = [30500 / 33]"
    by (simp add: boundary_close_def)
  show ?thesis
    by (simp only: u map_append a b c)
qed

lemma boundary_ema:
  "ema (replicate 50 100 @ replicate 9 1000 @ [30500 / 33]) 20
     = Some (13495259414482900 / 20386521195579)"
  "ema (replicate 50 100 @ replicate 9 1000 @ [30500 / 33]) 50
     = Some (57292550052100012900 / 145496295789304779)"
  by (simp_all add: ema_def Let_def ema_loop_foldl sum_reduce_def numeral_eq_Suc)

lemma boundary_history_nth:
  "length boundary_history = 60"
  "i < 60 \<Longrightarrow> b_c (boundary_history ! i) = Some (boundary_close i)"
  "map b_c boundary_history = map (\<lambda>i. Some (boundary_close i)) [0..<60]"
  "map b_vol boundary_history = replicate 60 None"
  "map b_oi boundary_history = replicate 60 None"
  by (simp_all add: boundary_history_def example_bar_def map_replicate_const o_def)

subsection \<open>The ingestion run\<close>

lemma filter_insert_by:
  "length (filter P (insert_by cmp x ys)) = length (filter P (x # ys))"
  by (induction ys) simp_all

lemma filter_foldl_insert_by:
  "length (filter P (foldl (\<lambda>acc x. insert_by cmp x acc) acc xs))
   = length (filter P acc) + length (filter P xs)"
proof (induction xs arbitrary: acc)
  case Nil
  show ?case by simp
next
  case (Cons x xs)
  show ?case
    by (simp add: Cons.IH filter_insert_by del: insert_by.simps)
qed

lemma filter_sort_by: "length (filter P (sort_by cmp xs)) = length (filter P xs)"
  by (simp add: sort_by_def filter_foldl_insert_by)

lemma main_success:
  assumes "main cmp file url date goldRow now1 now2 fs = Inr r"
  shows "(list_ex (\<lambda>x. b_date x = date) (history_file fs) \<longrightarrow>
            history_file (files_after r) = history_file fs)
     \<and> (\<not> list_ex (\<lambda>x. b_date x = date) (history_file fs) \<longrightarrow>
            (\<exists>rec. b_date rec = date
                 \<and> history_file (files_after r) = history_file fs @ [rec]))
     \<and> store r = sort_by (\<lambda>a b. cmp (b_date a) (b_date b)) (history_file (files_after r))
     \<and> (\<exists>latest. js_index (store r) (int (length (store r)) - 1) = Some latest
           \<and> latest_file (files_after r)
               = Some (latestJson latest (computeScore (store r)) now2))"
  using assms
  by (auto simp add: main_def Let_def split: if_splits option.splits)

lemma main_records_date:
  assumes "main cmp file url date goldRow now1 now2 fs = Inr r"
  shows "list_ex (\<lambda>x. b_date x = date) (history_file (files_after r))"
    and "length (filter (\<lambda>x. b_date x = date) (history_file fs)) \<le> 1 \<Longrightarrow>
         length (filter (\<lambda>x. b_date x = date) (history_file (files_after r))) = 1"
proof -
  let ?P = "\<lambda>x. b_date x = date"
  note m = main_success [OF assms]
  show "list_ex ?P (history_file (files_after r))"
  proof (cases "list_ex ?P (history_file fs)")
    case True
    with m show ?thesis by simp
  next
    case False
    with m obtain rec where "b_date rec = date"
      "history_file (files_after r) = history_file fs @ [rec]"
      by blast
    then show ?thesis by simp
  qed
  assume le: "length (filter ?P (history_file fs)) \<le> 1"
  show "length (filter ?P (history_file (files_after r))) = 1"
  proof (cases "list_ex ?P (history_file fs)")
    case True
    then have "filter ?P (history_file fs) \<noteq> []"
      by (simp add: list_ex_iff filter_empty_conv)
    with le have "length (filter ?P (history_file fs)) = 1"
      by (cases "filter ?P (history_file fs)") simp_all
    with True m show ?thesis by simp
  next
    case False
    then have e: "filter ?P (history_file fs) = []"
      by (simp add: list_ex_iff filter_empty_conv)
    from False m obtain rec where "b_date rec = date"
      "history_file (files_after r) = history_file fs @ [rec]"
      by blast
    with e show ?thesis by simp
  qed
qed

lemma latestJson_updated:
  "latestJson latest calc now' = (latestJson latest calc now)\<lparr>j_updated := now'\<rparr>"
  by (simp add: latestJson_def)

lemma first_run_value:
  "first_run = Inr
     \<lparr>files_after =
        \<lparr>history_file =
           [\<lparr>b_date = ''2026-02-18'', b_exchange = ''MCX'', b_instrument = ''GOLD'',
             b_expiry = Some ''2026-04-03'', b_o = 2000, b_h = 2010, b_l = 1990,
             b_c = Some 2005, b_prev_close = Some 1998, b_volume = Some 1000,
             b_value = None, b_open_interest = Some 500,
             b_updated = ''2026-02-18T10:00:00.000Z'', b_source = ''MCX_BHAVCOPY_FILE'',
             b_vol = None, b_oi = None\<rparr>],
         latest_file = Some
           \<lparr>j_date = ''2026-02-18'', j_exchange = ''MCX'', j_instrument = ''GOLD'',
            j_expiry = Some ''2026-04-03'', j_ohlc_o = 2000, j_ohlc_h = 2010,
            j_ohlc_l = 1990, j_ohlc_c = Some 2005, j_prev_close = Some 1998,
            j_volume = Some 1000, j_value = None, j_open_interest = Some 500,
            j_signals = Reason ''need >= 60 days history'', j_score = 0,
            j_verdict = HOLD, j_confidence = 0,
            j_updated = ''2026-02-18T10:00:00.002Z'', j_source = ''MCX_BHAVCOPY''\<rparr>\<rparr>,
      store =
        [\<lparr>b_date = ''2026-02-18'', b_exchange = ''MCX'', b_instrument = ''GOLD'',
          b_expiry = Some ''2026-04-03'', b_o = 2000, b_h = 2010, b_l = 1990,
          b_c = Some 2005, b_prev_close = Some 1998, b_volume = Some 1000,
          b_value = None, b_open_interest = Some 500,
          b_updated = ''2026-02-18T10:00:00.000Z'', b_source = ''MCX_BHAVCOPY_FILE'',
          b_vol = None, b_oi = None\<rparr>]\<rparr>"
  by (simp add: first_run_def main_def example_row_def truthy_str_def Let_def sort_by_def
      js_index_def computeScore_def latestJson_def)

lemma second_run_value:
  "second_run =
     main str_compare (Some ''bhavcopy.csv'') None ''2026-02-18'' (Some example_row)
       ''2026-02-18T10:01:00.000Z'' ''2026-02-18T10:01:00.002Z''
       (files_after (projr first_run))"
  "\<not> isl second_run"
  by (simp_all add: second_run_def first_run_value main_def example_row_def truthy_str_def
      Let_def sort_by_def js_index_def computeScore_def latestJson_def)

subsection \<open>The exponential moving average\<close>

text \<open>
  Claim C4. For a positive period and a sequence of at least \<open>period\<close> numbers, ema
  returns what the specification describes: the simple moving average of the first
  \<open>period\<close> elements as seed, then \<open>e := v * k + e * (1 - k)\<close> with
  \<open>k = 2 / (period + 1)\<close> for each remaining element \<open>v\<close> in order. On a shorter
  sequence it returns null.
\<close>

theorem ema_refines_spec:
  assumes "0 < period"
  shows "ema vs period = ema_spec vs period
       \<and> (length vs < period \<longrightarrow> ema vs period = None)
       \<and> (period \<le> length vs \<longrightarrow>
            ema vs period =
              Some (fold (\<lambda>v e. v * (2 / (real period + 1)) + e * (1 - 2 / (real period + 1)))
                         (drop period vs) (sum_list (take period vs) / real period)))"
  using assms
  by (simp add: ema_def ema_spec_def sma_def Let_def ema_loop_foldl foldl_flip_fold
      sum_reduce_sum_list)

theorem ema_refines_spec_witness:
  "ema [1, 2, 3, 4] 2 = Some (7 / 2) \<and> ema_spec [1, 2, 3, 4] 2 = Some (7 / 2)
   \<and> ema [1] 2 = None"
proof -
  have s: "ema_spec [1, 2, 3, 4] 2 = Some (7 / 2)"
    by (simp add: ema_spec_def sma_def sum_reduce_def)
  have p: "(0::nat) < 2" by simp
  from ema_refines_spec [OF p, of "[1, 2, 3, 4]"] s
  have a: "ema [1, 2, 3, 4] 2 = Some (7 / 2)" by simp
  from ema_refines_spec [OF p, of "[1]", THEN conjunct2, THEN conjunct1]
  have b: "ema [1] 2 = None" by simp
  from a s b show ?thesis by (intro conjI)
qed

subsection \<open>Wilder's average true range\<close>

text \<open>
  Claim C5. atr14 returns what the specification describes: the true range of every bar
  against the close of the bar before it (the first bar: \<open>high - low\<close>), the mean of the
  first 14 true ranges as seed, then \<open>atr := (atr * 13 + tr) / 14\<close> for each later true
  range. With fewer than 15 bars it returns null.
\<close>

theorem atr14_refines_spec:
  "atr14 bars = atr14_spec bars
   \<and> (length bars < 15 \<longrightarrow> atr14 bars = None)
   \<and> (15 \<le> length bars \<longrightarrow>
        atr14 bars =
          Some (fold (\<lambda>tr atr. (atr * 13 + tr) / 14) (drop 14 (true_ranges_spec None bars))
                     (sum_list (take 14 (true_ranges_spec None bars)) / 14)))"
  by (simp add: atr14_def atr14_spec_def Let_def atr_loop_foldl true_ranges_eq
      length_true_ranges_spec sum_reduce_sum_list foldl_flip_fold)

theorem atr14_refines_spec_witness:
  "atr14 (replicate 16 \<lparr>t_h = 11, t_l = 9, t_c = Some 10\<rparr>) = Some 2
   \<and> atr14 (replicate 14 \<lparr>t_h = 11, t_l = 9, t_c = Some 10\<rparr>) = None"
proof -
  let ?b = "\<lparr>t_h = 11, t_l = 9, t_c = Some 10\<rparr>"
  have s: "atr14_spec (replicate 16 ?b) = Some 2"
    by (simp add: atr14_spec_def trueRange_spec_def numeral_eq_Suc)
  from atr14_refines_spec [of "replicate 16 ?b"] s
  have a: "atr14 (replicate 16 ?b) = Some 2" by simp
  from atr14_refines_spec [of "replicate 14 ?b", THEN conjunct2, THEN conjunct1]
  have b: "atr14 (replicate 14 ?b) = None" by simp
  from a b show ?thesis by (intro conjI)
qed

subsection \<open>Short inputs and flat windows\<close>



subsection \<open>The guard of computeScore\<close>

text \<open>
  Claim C3. On a history of fewer than 60 bars computeScore returns score 0, verdict
  HOLD, confidence 0 and the reason "need >= 60 days history" in place of the
  indicators, whatever the bars hold: the result is one constant, in which no indicator
  value appears.
\<close>

theorem insufficient_history_guard:
  "length history < 60 \<Longrightarrow>
   computeScore history =
     \<lparr>score = 0, verdict = HOLD, confidence = 0,
      signals = Reason ''need >= 60 days history''\<rparr>"
  by (simp add: computeScore_def)

theorem insufficient_history_guard_witness:
  "computeScore (replicate 59
     \<lparr>b_date = ''2026-02-18'', b_exchange = ''MCX'', b_instrument = ''GOLD'',
      b_expiry = None, b_o = 2000, b_h = 2100, b_l = 1990, b_c = Some 2050,
      b_prev_close = None, b_volume = Some 10, b_value = None,
      b_open_interest = Some 5, b_updated = ''t'', b_source = ''MCX_BHAVCOPY_FILE'',
      b_vol = Some 10, b_oi = Some 5\<rparr>) =
     \<lparr>score = 0, verdict = HOLD, confidence = 0,
      signals = Reason ''need >= 60 days history''\<rparr>"
  by (rule insufficient_history_guard) simp

subsection \<open>The verdict thresholds\<close>

text \<open>
  Claim C6. For every history the verdict is BUY exactly when the score is above 0.25
  and SELL exactly when it is below -0.25; otherwise, in particular at a score of
  exactly 0.25 or -0.25, it is HOLD.
\<close>

theorem verdict_thresholds:
  "(verdict (computeScore h) = BUY \<longleftrightarrow> score (computeScore h) > 1 / 4)
   \<and> (verdict (computeScore h) = SELL \<longleftrightarrow> score (computeScore h) < - (1 / 4))
   \<and> (verdict (computeScore h) = HOLD \<longleftrightarrow>
        - (1 / 4) \<le> score (computeScore h) \<and> score (computeScore h) \<le> 1 / 4)"
  by (simp add: computeScore_verdict)

theorem verdict_thresholds_witness:
  "score (computeScore boundary_history) = 1 / 4
   \<and> verdict (computeScore boundary_history) = HOLD"
proof -
  let ?h = boundary_history
  have n: "60 \<le> length ?h"
    by (simp add: boundary_history_nth)
  obtain ind :: indicators where
    r1: "s_ret_1d ind = ret (b_c (?h ! (length ?h - 2))) (b_c (?h ! (length ?h - 1)))"
    and r5: "s_ret_5d ind = ret (b_c (?h ! (length ?h - 6))) (b_c (?h ! (length ?h - 1)))"
    and e20: "s_ema20 ind = ema (numbers (map b_c ?h)) 20"
    and e50: "s_ema50 ind = ema (numbers (map b_c ?h)) 50"
    and sp: "s_ema_spread ind =
       (case (s_ema20 ind, s_ema50 ind) of
          (Some e20, Some e50) \<Rightarrow> if e50 \<noteq> 0 then e20 / e50 - 1 else 0
        | _ \<Rightarrow> 0)"
    and vz: "s_vol_z60 ind = or_zero (zscore (numbers (map b_vol ?h)) 60)"
    and oz: "s_oi_z60 ind = or_zero (zscore (numbers (map b_oi ?h)) 60)"
    and tr: "s_trend ind = clamp (s_ema_spread ind * 10) (- 1) 1"
    and mo: "s_momentum ind = clamp (s_ret_5d ind * 8 + s_ret_1d ind * 3) (- 1) 1"
    and pa: "s_participation ind = clamp (s_oi_z60 ind / 3 + s_vol_z60 ind / 3) (- 1) 1"
    and sc: "score (computeScore ?h) =
       clamp (1 / 2 * s_trend ind + 3 / 10 * s_momentum ind + 1 / 5 * s_participation ind)
             (- 1) 1"
    by (rule computeScore_bundle [OF n]) (rule that, assumption+)
  have closes: "numbers (map b_c ?h) = replicate 50 100 @ replicate 9 1000 @ [30500 / 33]"
    by (simp only: boundary_history_nth numbers_map_Some boundary_closes)
  have trend: "s_trend ind = 1"
    by (simp add: tr sp e20 e50 closes boundary_ema clamp_def)
  have "s_ret_1d ind = - (5 / 66)" "s_ret_5d ind = - (5 / 66)"
    by (simp_all add: r1 r5 boundary_history_nth boundary_close_def ret_def)
  then have mom: "s_momentum ind = - (5 / 6)"
    by (simp add: mo clamp_def)
  have part: "s_participation ind = 0"
    by (simp add: pa vz oz boundary_history_nth numbers_replicate_None zscore_def
        or_zero_def clamp_def)
  have s: "score (computeScore ?h) = 1 / 4"
    by (simp add: sc trend mom part clamp_def)
  with verdict_thresholds [of ?h] show ?thesis
    by simp
qed

subsection \<open>The five-day return\<close>

text \<open>
  Claim C8. On a history of at least 60 bars, \<open>ret_5d\<close> compares the last close with
  the close at index \<open>length - 6\<close>: it is \<open>close[last] / close[length - 6] - 1\<close> when
  both closes are present and not zero, and 0 when the close at \<open>length - 6\<close> is missing.
  (It is 0 as well when either close is 0 or the last close is missing: the two closes
  go through \<open>ret\<close>.)
\<close>

theorem ret5d_offset:
  assumes "60 \<le> length h"
  shows "\<exists>ind. signals (computeScore h) = Indicators ind
     \<and> s_ret_5d ind = ret (b_c (h ! (length h - 6))) (b_c (h ! (length h - 1)))
     \<and> (\<forall>a b. b_c (h ! (length h - 6)) = Some b \<and> b_c (h ! (length h - 1)) = Some a
               \<and> a \<noteq> 0 \<and> b \<noteq> 0 \<longrightarrow> s_ret_5d ind = a / b - 1)
     \<and> (b_c (h ! (length h - 6)) = None \<longrightarrow> s_ret_5d ind = 0)"
proof -
  from assms obtain ind where ind: "signals (computeScore h) = Indicators ind"
    and r: "s_ret_5d ind = ret (b_c (h ! (length h - 6))) (b_c (h ! (length h - 1)))"
    by (rule computeScore_bundle)
  have "\<forall>a b. b_c (h ! (length h - 6)) = Some b \<and> b_c (h ! (length h - 1)) = Some a
               \<and> a \<noteq> 0 \<and> b \<noteq> 0 \<longrightarrow> s_ret_5d ind = a / b - 1"
    by (simp add: r ret_def)
  moreover have "b_c (h ! (length h - 6)) = None \<longrightarrow> s_ret_5d ind = 0"
    by (simp add: r ret_def)
  ultimately show ?thesis
    using ind r by (intro exI [of _ ind] conjI)
qed

theorem ret5d_offset_witness:
  "(\<exists>ind. signals (computeScore rising_history) = Indicators ind
         \<and> s_ret_5d ind = 2100 / (2000 + 5400 / 59) - 1)
   \<and> (\<exists>ind. signals (computeScore (rising_history [54 := (rising_history ! 54)\<lparr>b_c := None\<rparr>]))
               = Indicators ind
         \<and> s_ret_5d ind = 0)"
proof -
  let ?h = "rising_history"
  have "60 \<le> length ?h"
    by (simp add: rising_history_bars)
  from ret5d_offset [OF this] obtain ind where
    ind: "signals (computeScore ?h) = Indicators ind"
    and r: "\<forall>a b. b_c (?h ! (length ?h - 6)) = Some b \<and> b_c (?h ! (length ?h - 1)) = Some a
               \<and> a \<noteq> 0 \<and> b \<noteq> 0 \<longrightarrow> s_ret_5d ind = a / b - 1"
    by blast
  have a: "s_ret_5d ind = 2100 / (2000 + 5400 / 59) - 1"
    by (rule r [rule_format]) (simp add: rising_history_bars rising_close_def)
  define g where "g = rising_history [54 := (rising_history ! 54)\<lparr>b_c := None\<rparr>]"
  have "60 \<le> length g"
    by (simp add: g_def rising_history_bars)
  from ret5d_offset [OF this] obtain ind' where
    ind': "signals (computeScore g) = Indicators ind'"
    and r': "b_c (g ! (length g - 6)) = None \<longrightarrow> s_ret_5d ind' = 0"
    by (elim exE conjE) (rule that)
  have "b_c (g ! (length g - 6)) = None"
    by (simp add: g_def rising_history_bars)
  with r' have b: "s_ret_5d ind' = 0"
    by simp
  note ind' = ind' [unfolded g_def]
  from ind a ind' b show ?thesis
    by blast
qed

subsection \<open>High and low do not reach the score\<close>

text \<open>
  Claim C9. Two histories with the same closes, volumes and open interests, bar by bar,
  get the same score and the same verdict, whatever their highs and lows (and dates)
  are; only the confidence may differ.
\<close>

theorem score_ignores_high_low:
  assumes "map b_c h1 = map b_c h2"
    and "map b_vol h1 = map b_vol h2"
    and "map b_oi h1 = map b_oi h2"
  shows "score (computeScore h1) = score (computeScore h2)
       \<and> verdict (computeScore h1) = verdict (computeScore h2)"
  using assms by (rule score_verdict_depend)

theorem score_ignores_high_low_witness:
  "score (computeScore (flat_history 100 100 100))
     = score (computeScore (flat_history 110 90 100))
   \<and> verdict (computeScore (flat_history 100 100 100))
     = verdict (computeScore (flat_history 110 90 100))
   \<and> confidence (computeScore (flat_history 100 100 100)) = 45
   \<and> confidence (computeScore (flat_history 110 90 100)) = 18"
proof -
  have m: "map b_c (flat_history 100 100 100) = map b_c (flat_history 110 90 100)"
      "map b_vol (flat_history 100 100 100) = map b_vol (flat_history 110 90 100)"
      "map b_oi (flat_history 100 100 100) = map b_oi (flat_history 110 90 100)"
    by (simp_all add: flat_history_def example_bar_def)
  have c1: "confidence (computeScore (flat_history 100 100 100)) = 45"
    using computeScore_flat [of "flat_history 100 100 100" 100 100 100 "Some 1000" "Some 500"]
      flat_history_props [where hi = 100 and lo = 100 and cl = 100]
    by (simp add: clamp_def js_round_def)
  have c2: "confidence (computeScore (flat_history 110 90 100)) = 18"
    using computeScore_flat [of "flat_history 110 90 100" 100 110 90 "Some 1000" "Some 500"]
      flat_history_props [where hi = 110 and lo = 90 and cl = 100]
    by (simp add: clamp_def js_round_def)
  from score_ignores_high_low [OF m] c1 c2 show ?thesis
    by simp
qed

subsection \<open>The confidence of a flat market\<close>



subsection \<open>The rising market\<close>




subsection \<open>Ingesting one date twice\<close>

text \<open>
  Claim C2, as the code has it. When two runs for the same date both succeed, the second
  appends nothing: the history log and the sorted in-memory history are those of the
  first run, and hold exactly one record for the date if the log held at most one
  before. The two latest snapshots agree in every field except \<open>updated\<close>, which is the
  clock reading of each run.
\<close>

theorem ingest_twice_same_date:
  assumes r1: "main cmp file1 url1 date row1 t1 t1' fs = Inr r1"
    and r2: "main cmp file2 url2 date row2 t2 t2' (files_after r1) = Inr r2"
  shows "history_file (files_after r2) = history_file (files_after r1)
       \<and> store r2 = store r1
       \<and> (length (filter (\<lambda>x. b_date x = date) (history_file fs)) \<le> 1 \<longrightarrow>
            length (filter (\<lambda>x. b_date x = date) (history_file (files_after r2))) = 1
            \<and> length (filter (\<lambda>x. b_date x = date) (store r2)) = 1)
       \<and> (\<exists>j. latest_file (files_after r1) = Some j
              \<and> latest_file (files_after r2) = Some (j\<lparr>j_updated := t2'\<rparr>))"
proof -
  let ?P = "\<lambda>x. b_date x = date"
  note m1 = main_success [OF r1] and m2 = main_success [OF r2]
  have ex: "list_ex ?P (history_file (files_after r1))"
    using r1 by (rule main_records_date)
  with m2 have h: "history_file (files_after r2) = history_file (files_after r1)"
    by simp
  with m1 m2 have s: "store r2 = store r1"
    by simp
  from m1 obtain latest where l1: "js_index (store r1) (int (length (store r1)) - 1) = Some latest"
    and j1: "latest_file (files_after r1) = Some (latestJson latest (computeScore (store r1)) t1')"
    by blast
  from m2 s l1 have j2: "latest_file (files_after r2)
      = Some (latestJson latest (computeScore (store r1)) t2')"
    by auto
  have c: "length (filter ?P (history_file fs)) \<le> 1 \<longrightarrow>
            length (filter ?P (history_file (files_after r2))) = 1
            \<and> length (filter ?P (store r2)) = 1"
  proof
    assume "length (filter ?P (history_file fs)) \<le> 1"
    with r1 have "length (filter ?P (history_file (files_after r1))) = 1"
      by (rule main_records_date)
    moreover from m1 have "length (filter ?P (store r1))
        = length (filter ?P (history_file (files_after r1)))"
      by (simp add: filter_sort_by)
    ultimately show "length (filter ?P (history_file (files_after r2))) = 1
            \<and> length (filter ?P (store r2)) = 1"
      using h s by simp
  qed
  from j1 j2 have "\<exists>j. latest_file (files_after r1) = Some j
              \<and> latest_file (files_after r2) = Some (j\<lparr>j_updated := t2'\<rparr>)"
    using latestJson_updated [of latest "computeScore (store r1)" t2' t1'] by simp
  with h s c show ?thesis
    by (intro conjI)
qed

theorem ingest_twice_same_date_witness:
  "history_file (files_after (projr second_run)) = history_file (files_after (projr first_run))
   \<and> store (projr second_run) = store (projr first_run)
   \<and> length (filter (\<lambda>x. b_date x = ''2026-02-18'')
               (history_file (files_after (projr second_run)))) = 1
   \<and> length (filter (\<lambda>x. b_date x = ''2026-02-18'') (store (projr second_run))) = 1
   \<and> (\<exists>j. latest_file (files_after (projr first_run)) = Some j
          \<and> latest_file (files_after (projr second_run))
              = Some (j\<lparr>j_updated := ''2026-02-18T10:01:00.002Z''\<rparr>))"
proof -
  have "\<not> isl first_run"
    by (simp add: first_run_value)
  then have r1: "main str_compare (Some ''bhavcopy.csv'') None ''2026-02-18'' (Some example_row)
       ''2026-02-18T10:00:00.000Z'' ''2026-02-18T10:00:00.002Z''
       \<lparr>history_file = [], latest_file = None\<rparr> = Inr (projr first_run)"
    by (simp add: first_run_def [symmetric])
  have r2: "main str_compare (Some ''bhavcopy.csv'') None ''2026-02-18'' (Some example_row)
       ''2026-02-18T10:01:00.000Z'' ''2026-02-18T10:01:00.002Z''
       (files_after (projr first_run)) = Inr (projr second_run)"
    using second_run_value(2) by (simp add: second_run_value(1) [symmetric])
  have c: "length (filter (\<lambda>x. b_date x = ''2026-02-18'')
                   (history_file \<lparr>history_file = [], latest_file = None\<rparr>)) \<le> 1"
    by simp
  from ingest_twice_same_date [OF r1 r2] c show ?thesis
    by blast
qed

text \<open>
  The two runs of the example, a minute apart, leave the same log and two snapshots that
  differ: the snapshot files are not identical.
\<close>

theorem snapshot_differs:
  "\<not> isl first_run \<and> \<not> isl second_run
   \<and> history_file (files_after (projr second_run)) = history_file (files_after (projr first_run))
   \<and> latest_file (files_after (projr second_run))
       \<noteq> latest_file (files_after (projr first_run))"
  by (simp add: second_run_def first_run_value main_def example_row_def truthy_str_def
      Let_def sort_by_def js_index_def computeScore_def latestJson_def)

end
